theory Spec2Isabelle
  imports Main "HOL-Library.Word" "HOL-Library.Sublist"
begin

section \<open>Values, exceptions and the engine\<close>

text \<open>
  The wrapper sits on top of the SQLite C interface.  The engine itself is an external
  collaborator: the wrapper only issues calls to it and reads back integer result codes,
  error strings and the parameter count of a compiled statement.  The model therefore
  keeps the sequence of engine calls issued so far (the call log) as the state of the
  world and takes the engine's answers as a parameter: an answer may depend on every
  call made before it, so any deterministic engine is covered.
\<close>

type_synonym int32 = "32 word"
type_synonym int64 = "64 word"
type_synonym size_t = "64 word"

text \<open>A \<open>double\<close> is only passed through to the engine; it is kept as its 64-bit pattern.\<close>
type_synonym double = "64 word"
type_synonym byte = "8 word"

text \<open>\<open>SqliteValue\<close> of \<open>SqliteTypes.hpp\<close>: a variant over five alternatives.\<close>
datatype SqliteValue =
    monostate
  | Int64 int64
  | Double double
  | Text string
  | Blob "byte list"

text \<open>
  The exception classes of \<open>SqliteException.hpp\<close>, each carrying its message and its
  error code (0 when the thrower gives none), and \<open>std::invalid_argument\<close>.
\<close>
datatype exception =
    SqliteDbException string int
  | SqliteStatementException string int
  | SqliteTransactionException string int
  | invalid_argument string

datatype category = Connection | Statement | Transaction | InvalidArgument

fun category_of :: "exception \<Rightarrow> category" where
  "category_of (SqliteDbException m c) = Connection"
| "category_of (SqliteStatementException m c) = Statement"
| "category_of (SqliteTransactionException m c) = Transaction"
| "category_of (invalid_argument m) = InvalidArgument"

fun what :: "exception \<Rightarrow> string" where
  "what (SqliteDbException m c) = m"
| "what (SqliteStatementException m c) = m"
| "what (SqliteTransactionException m c) = m"
| "what (invalid_argument m) = m"

text \<open>
  A compiled statement handle is identified by the SQL text it was compiled from.  The
  handle can be null: for a text that holds no statement (an empty string, a comment)
  \<open>sqlite3_prepare_v2\<close> reports \<open>SQLITE_OK\<close> and stores a null pointer.  Which texts
  give the null handle is the engine's business (\<open>null_stmt\<close> below).
\<close>
type_synonym sqlite3_stmt = string

datatype sqlite3_call =
    sqlite3_prepare_v2 string
  | sqlite3_bind_int sqlite3_stmt int int32
  | sqlite3_bind_int64 sqlite3_stmt int int64
  | sqlite3_bind_double sqlite3_stmt int double
  | sqlite3_bind_text sqlite3_stmt int string
  | sqlite3_bind_blob sqlite3_stmt int "byte list"
  | sqlite3_bind_null sqlite3_stmt int
  | sqlite3_step sqlite3_stmt
  | sqlite3_reset sqlite3_stmt
  | sqlite3_clear_bindings sqlite3_stmt
  | sqlite3_finalize sqlite3_stmt
  | sqlite3_exec string

type_synonym log = "sqlite3_call list"

text \<open>
  The engine: the result code of a call given the calls made before it, the error
  string \<open>sqlite3_exec\<close> hands back (it may be null) and \<open>sqlite3_errmsg\<close> after a
  given history, the number \<open>sqlite3_bind_parameter_count\<close> reports for a compiled
  statement (a C \<open>int\<close>; the largest parameter index, which is the number of
  placeholders only when they are numbered without gaps), and whether the handle of a
  statement is the null pointer.
\<close>
record engine =
  result_code :: "log \<Rightarrow> sqlite3_call \<Rightarrow> int"
  exec_errMsg :: "log \<Rightarrow> string option"
  sqlite3_errmsg :: "log \<Rightarrow> string"
  sqlite3_bind_parameter_count :: "sqlite3_stmt \<Rightarrow> int32"
  null_stmt :: "sqlite3_stmt \<Rightarrow> bool"

text \<open>The result codes of \<open>sqlite3.h\<close> that the wrapper compares against.\<close>
definition SQLITE_OK :: int where "SQLITE_OK = 0"
definition SQLITE_ROW :: int where "SQLITE_ROW = 100"
definition SQLITE_DONE :: int where "SQLITE_DONE = 101"

text \<open>Issuing a call: the engine answers, and the call is appended to the log.\<close>
definition issue :: "engine \<Rightarrow> sqlite3_call \<Rightarrow> log \<Rightarrow> int \<times> log" where
  "issue e c l = (result_code e l c, l @ [c])"

subsection \<open>\<open>std::to_string\<close>\<close>

text \<open>The decimal digits of a natural number, most significant first.\<close>
fun digits :: "nat \<Rightarrow> string" where
  "digits n = (if n < 10 then [''0123456789'' ! n]
               else digits (n div 10) @ [''0123456789'' ! (n mod 10)])"

declare digits.simps [simp del]

definition to_string :: "int \<Rightarrow> string" where
  "to_string i = (if i < 0 then CHR ''-'' # digits (nat (- i)) else digits (nat i))"

section \<open>\<open>SqliteStatement\<close>\<close>

record SqliteStatement =
  mStatement :: sqlite3_stmt

definition getParameterCount :: "engine \<Rightarrow> SqliteStatement \<Rightarrow> int" where
  "getParameterCount e st = sint (sqlite3_bind_parameter_count e (mStatement st))"

text \<open>
  \<open>checkParameterIndex\<close>: \<open>None\<close> when the index is accepted, otherwise the exception
  thrown.  No engine call that changes anything is made.
\<close>
definition checkParameterIndex :: "engine \<Rightarrow> SqliteStatement \<Rightarrow> int \<Rightarrow> exception option" where
  "checkParameterIndex e st index =
     (if index < 1 then
        Some (SqliteStatementException (''Parameter index must be >= 1, got '' @ to_string index) 0)
      else
        let paramCount = getParameterCount e st in
        if index > paramCount then
          Some (SqliteStatementException
            (''Parameter index '' @ to_string index @ '' out of range [1, ''
               @ to_string paramCount @ '']'') 0)
        else None)"

text \<open>
  The binding operations.  Each checks the index first, then issues the engine's bind
  call and throws when the result is not \<open>SQLITE_OK\<close>.  The C++ overloads of \<open>bind\<close>
  get one name each.
\<close>
definition bind_int :: "engine \<Rightarrow> SqliteStatement \<Rightarrow> int \<Rightarrow> int32 \<Rightarrow> log \<Rightarrow> (exception + unit) \<times> log" where
  "bind_int e st index v l =
     (case checkParameterIndex e st index of
        Some ex \<Rightarrow> (Inl ex, l)
      | None \<Rightarrow>
          let (result, l') = issue e (sqlite3_bind_int (mStatement st) index v) l in
          if result \<noteq> SQLITE_OK then
            (Inl (SqliteStatementException (''Failed to bind int at index '' @ to_string index) 0), l')
          else (Inr (), l'))"

definition bind_int64 :: "engine \<Rightarrow> SqliteStatement \<Rightarrow> int \<Rightarrow> int64 \<Rightarrow> log \<Rightarrow> (exception + unit) \<times> log" where
  "bind_int64 e st index v l =
     (case checkParameterIndex e st index of
        Some ex \<Rightarrow> (Inl ex, l)
      | None \<Rightarrow>
          let (result, l') = issue e (sqlite3_bind_int64 (mStatement st) index v) l in
          if result \<noteq> SQLITE_OK then
            (Inl (SqliteStatementException (''Failed to bind int64 at index '' @ to_string index) 0), l')
          else (Inr (), l'))"

definition bind_double :: "engine \<Rightarrow> SqliteStatement \<Rightarrow> int \<Rightarrow> double \<Rightarrow> log \<Rightarrow> (exception + unit) \<times> log" where
  "bind_double e st index v l =
     (case checkParameterIndex e st index of
        Some ex \<Rightarrow> (Inl ex, l)
      | None \<Rightarrow>
          let (result, l') = issue e (sqlite3_bind_double (mStatement st) index v) l in
          if result \<noteq> SQLITE_OK then
            (Inl (SqliteStatementException (''Failed to bind double at index '' @ to_string index) 0), l')
          else (Inr (), l'))"

definition bind_string :: "engine \<Rightarrow> SqliteStatement \<Rightarrow> int \<Rightarrow> string \<Rightarrow> log \<Rightarrow> (exception + unit) \<times> log" where
  "bind_string e st index v l =
     (case checkParameterIndex e st index of
        Some ex \<Rightarrow> (Inl ex, l)
      | None \<Rightarrow>
          let (result, l') = issue e (sqlite3_bind_text (mStatement st) index v) l in
          if result \<noteq> SQLITE_OK then
            (Inl (SqliteStatementException (''Failed to bind text at index '' @ to_string index) 0), l')
          else (Inr (), l'))"

text \<open>The \<open>const char*\<close> overload.\<close>
definition bind_cstr :: "engine \<Rightarrow> SqliteStatement \<Rightarrow> int \<Rightarrow> string \<Rightarrow> log \<Rightarrow> (exception + unit) \<times> log" where
  "bind_cstr e st index v l =
     (case checkParameterIndex e st index of
        Some ex \<Rightarrow> (Inl ex, l)
      | None \<Rightarrow>
          let (result, l') = issue e (sqlite3_bind_text (mStatement st) index v) l in
          if result \<noteq> SQLITE_OK then
            (Inl (SqliteStatementException (''Failed to bind text at index '' @ to_string index) 0), l')
          else (Inr (), l'))"

text \<open>The blob overload; its failure message is the one the source writes.\<close>
definition bind_blob :: "engine \<Rightarrow> SqliteStatement \<Rightarrow> int \<Rightarrow> byte list \<Rightarrow> log \<Rightarrow> (exception + unit) \<times> log" where
  "bind_blob e st index blob l =
     (case checkParameterIndex e st index of
        Some ex \<Rightarrow> (Inl ex, l)
      | None \<Rightarrow>
          let (result, l') = issue e (sqlite3_bind_blob (mStatement st) index blob) l in
          if result \<noteq> SQLITE_OK then
            (Inl (SqliteStatementException (''Failed to bind text at index '' @ to_string index) 0), l')
          else (Inr (), l'))"

definition bindNull :: "engine \<Rightarrow> SqliteStatement \<Rightarrow> int \<Rightarrow> log \<Rightarrow> (exception + unit) \<times> log" where
  "bindNull e st index l =
     (case checkParameterIndex e st index of
        Some ex \<Rightarrow> (Inl ex, l)
      | None \<Rightarrow>
          let (result, l') = issue e (sqlite3_bind_null (mStatement st) index) l in
          if result \<noteq> SQLITE_OK then
            (Inl (SqliteStatementException (''Failed to bind null at index '' @ to_string index) 0), l')
          else (Inr (), l'))"

text \<open>
  \<open>step\<close>: true when a row is available, false when execution has completed, an
  exception naming the result code otherwise.
\<close>
definition step :: "engine \<Rightarrow> SqliteStatement \<Rightarrow> log \<Rightarrow> (exception + bool) \<times> log" where
  "step e st l =
     (let (result, l') = issue e (sqlite3_step (mStatement st)) l in
      if result = SQLITE_ROW then (Inr True, l')
      else if result = SQLITE_DONE then (Inr False, l')
      else (Inl (SqliteStatementException
              (''Step failed with error code: '' @ to_string result) 0), l'))"

text \<open>\<open>reset\<close> and \<open>clearBindings\<close> issue their call and do not look at its result.\<close>
definition reset :: "engine \<Rightarrow> SqliteStatement \<Rightarrow> log \<Rightarrow> (exception + unit) \<times> log" where
  "reset e st l = (let (result, l') = issue e (sqlite3_reset (mStatement st)) l in (Inr (), l'))"

definition clearBindings :: "engine \<Rightarrow> SqliteStatement \<Rightarrow> log \<Rightarrow> (exception + unit) \<times> log" where
  "clearBindings e st l =
     (let (result, l') = issue e (sqlite3_clear_bindings (mStatement st)) l in (Inr (), l'))"

text \<open>
  The statement's destructor: \<open>SqliteStatementDeleter\<close> finalizes the compiled statement
  when the handle is not null, and does nothing for the null handle.
\<close>
definition destroy_statement :: "engine \<Rightarrow> SqliteStatement \<Rightarrow> log \<Rightarrow> log" where
  "destroy_statement e st l =
     (if \<not> null_stmt e (mStatement st) then snd (issue e (sqlite3_finalize (mStatement st)) l)
      else l)"

section \<open>\<open>SqliteValueBinder\<close>\<close>

text \<open>\<open>SqliteValueBinder::bind\<close>: dispatch on the alternative the value holds.\<close>
fun binder_bind :: "engine \<Rightarrow> SqliteStatement \<Rightarrow> int \<Rightarrow> SqliteValue \<Rightarrow> log \<Rightarrow> (exception + unit) \<times> log" where
  "binder_bind e mStmt index monostate l = bindNull e mStmt index l"
| "binder_bind e mStmt index (Int64 v) l = bind_int64 e mStmt index v l"
| "binder_bind e mStmt index (Double v) l = bind_double e mStmt index v l"
| "binder_bind e mStmt index (Text v) l = bind_string e mStmt index v l"
| "binder_bind e mStmt index (Blob v) l = bind_blob e mStmt index v l"

section \<open>\<open>SqliteDb\<close>\<close>

text \<open>
  The connection object owns a nullable pointer to the engine handle.  The mutex that
  serializes \<open>prepare\<close> and \<open>execute\<close> has no effect on a single caller and is left out.
\<close>
record SqliteDb =
  mConnection :: "nat option"

definition isOpen :: "SqliteDb \<Rightarrow> bool" where
  "isOpen db = (mConnection db \<noteq> None)"

definition checkConnection :: "SqliteDb \<Rightarrow> exception option" where
  "checkConnection db =
     (if mConnection db = None then Some (SqliteDbException ''Database not open'' 0) else None)"

definition getErrorMessage :: "engine \<Rightarrow> SqliteDb \<Rightarrow> log \<Rightarrow> string" where
  "getErrorMessage e db l =
     (if mConnection db \<noteq> None then sqlite3_errmsg e l else ''No database connection'')"

definition prepare :: "engine \<Rightarrow> SqliteDb \<Rightarrow> string \<Rightarrow> log \<Rightarrow> (exception + SqliteStatement) \<times> log" where
  "prepare e db sql l =
     (case checkConnection db of
        Some ex \<Rightarrow> (Inl ex, l)
      | None \<Rightarrow>
          let (result, l') = issue e (sqlite3_prepare_v2 sql) l in
          if result \<noteq> SQLITE_OK then
            (Inl (SqliteDbException (''Failed to prepare statement: '' @ sqlite3_errmsg e l') 0), l')
          else (Inr \<lparr>mStatement = sql\<rparr>, l'))"

definition execute :: "engine \<Rightarrow> SqliteDb \<Rightarrow> string \<Rightarrow> log \<Rightarrow> (exception + unit) \<times> log" where
  "execute e db sql l =
     (case checkConnection db of
        Some ex \<Rightarrow> (Inl ex, l)
      | None \<Rightarrow>
          let (rc, l') = issue e (sqlite3_exec sql) l in
          if rc \<noteq> SQLITE_OK then
            let error = (case exec_errMsg e l' of
                           Some errMsg \<Rightarrow> errMsg
                         | None \<Rightarrow> getErrorMessage e db l')
            in (Inl (SqliteDbException (''SQL execution error: '' @ error) 0), l')
          else (Inr (), l'))"

text \<open>Sequencing of two steps: an exception thrown by the first skips the second.\<close>
definition and_then ::
  "(exception + 'a) \<times> log \<Rightarrow> ('a \<Rightarrow> log \<Rightarrow> (exception + 'b) \<times> log) \<Rightarrow> (exception + 'b) \<times> log" where
  "and_then r f = (case r of (Inl ex, l) \<Rightarrow> (Inl ex, l) | (Inr a, l) \<Rightarrow> f a l)"

text \<open>
  \<open>static_cast<int>\<close> of a \<open>std::size_t\<close>: the low 32 bits, read as two's complement.
  The counter \<open>idx\<close> of \<open>executeBatch\<close> is a \<open>std::size_t\<close> counting the values of one
  row; a row has fewer than \<open>2^64\<close> values, so the counter itself never wraps and is a
  natural number here.
\<close>
definition static_cast_int :: "nat \<Rightarrow> int" where
  "static_cast_int idx = sint (word_of_nat idx :: int32)"

text \<open>The inner loop of \<open>executeBatch\<close>: bind the values of one row, \<open>idx\<close> counting up.\<close>
fun bind_row :: "engine \<Rightarrow> SqliteStatement \<Rightarrow> nat \<Rightarrow> SqliteValue list \<Rightarrow> log \<Rightarrow> (exception + unit) \<times> log" where
  "bind_row e stmt idx [] l = (Inr (), l)"
| "bind_row e stmt idx (v # vs) l =
     and_then (binder_bind e stmt (static_cast_int idx) v l)
       (\<lambda>_ l'. bind_row e stmt (idx + 1) vs l')"

text \<open>The outer loop: for each row bind from index 1, step, reset, clear the bindings.\<close>
fun batch_rows :: "engine \<Rightarrow> SqliteStatement \<Rightarrow> SqliteValue list list \<Rightarrow> log \<Rightarrow> (exception + unit) \<times> log" where
  "batch_rows e stmt [] l = (Inr (), l)"
| "batch_rows e stmt (row # rows) l =
     and_then (bind_row e stmt 1 row l) (\<lambda>_ l1.
     and_then (step e stmt l1) (\<lambda>_ l2.
     and_then (reset e stmt l2) (\<lambda>_ l3.
     and_then (clearBindings e stmt l3) (\<lambda>_ l4.
     batch_rows e stmt rows l4))))"

text \<open>
  \<open>executeBatch\<close>.  The local statement is destroyed when the function is left, by
  return or by exception, once \<open>prepare\<close> has produced it; its destructor finalizes a
  handle that is not null.
\<close>
definition executeBatch :: "engine \<Rightarrow> SqliteDb \<Rightarrow> string \<Rightarrow> SqliteValue list list \<Rightarrow> log \<Rightarrow> (exception + unit) \<times> log" where
  "executeBatch e db sql rows l =
     (if mConnection db = None then (Inl (SqliteDbException ''Database not open'' 0), l)
      else
        case prepare e db sql l of
          (Inl ex, l') \<Rightarrow> (Inl ex, l')
        | (Inr stmt, l') \<Rightarrow>
            let (r, l'') = batch_rows e stmt rows l' in (r, destroy_statement e stmt l''))"

definition MIN_CACHE_KB :: size_t where "MIN_CACHE_KB = 0"
definition MAX_CACHE_KB :: size_t where "MAX_CACHE_KB = 2000000"

text \<open>
  \<open>setCacheSize\<close>.  \<open>std::to_string\<close> of a \<open>std::size_t\<close> prints it unsigned; the value
  formatted into the command is the \<open>std::int64_t\<close> the size is cast to.
\<close>
definition setCacheSize :: "engine \<Rightarrow> SqliteDb \<Rightarrow> size_t \<Rightarrow> log \<Rightarrow> (exception + unit) \<times> log" where
  "setCacheSize e db sizeKb l =
     (if sizeKb < MIN_CACHE_KB then
        (Inl (invalid_argument
           (''Cache size too small: '' @ digits (unat sizeKb) @ '' KB (minimum: ''
              @ digits (unat MIN_CACHE_KB) @ '' KB)'')), l)
      else if sizeKb > MAX_CACHE_KB then
        (Inl (invalid_argument
           (''Cache size too large: '' @ digits (unat sizeKb) @ '' KB (maximum: ''
              @ digits (unat MAX_CACHE_KB) @ '' KB)'')), l)
      else execute e db (''PRAGMA cache_size = '' @ to_string (sint sizeKb)) l)"

section \<open>\<open>SqliteTransaction\<close>\<close>

datatype Mode = Deferred | Immediate | Exclusive

text \<open>The object holds a reference to the connection object and the active flag.\<close>
record SqliteTransaction =
  mSqliteDb :: SqliteDb
  mIntransaction :: bool

fun begin_sql :: "Mode \<Rightarrow> string" where
  "begin_sql Deferred = ''BEGIN DEFERRED;''"
| "begin_sql Exclusive = ''BEGIN EXCLUSIVE;''"
| "begin_sql Immediate = ''BEGIN IMMEDIATE;''"

text \<open>
  The constructor.  An exception leaves no object behind; the exception of \<open>execute\<close>
  is not caught here.
\<close>
definition new_SqliteTransaction ::
  "engine \<Rightarrow> SqliteDb \<Rightarrow> Mode \<Rightarrow> log \<Rightarrow> (exception + SqliteTransaction) \<times> log" where
  "new_SqliteTransaction e sqliteDb mode l =
     (if \<not> isOpen sqliteDb then (Inl (SqliteTransactionException ''No database'' 0), l)
      else
        case execute e sqliteDb (begin_sql mode) l of
          (Inl ex, l') \<Rightarrow> (Inl ex, l')
        | (Inr _, l') \<Rightarrow> (Inr \<lparr>mSqliteDb = sqliteDb, mIntransaction = True\<rparr>, l'))"

text \<open>
  The member functions return the outcome, the object after the call and the log.
  \<open>exec\<close> rethrows an exception of \<open>execute\<close> as a \<open>SqliteTransactionException\<close> with
  the same message; the flag is cleared only after \<open>execute\<close> has returned.
\<close>
definition exec ::
  "engine \<Rightarrow> string \<Rightarrow> SqliteTransaction \<Rightarrow> log \<Rightarrow> (exception + unit) \<times> SqliteTransaction \<times> log" where
  "exec e sql t l =
     (if mIntransaction t then
        case execute e (mSqliteDb t) sql l of
          (Inr _, l') \<Rightarrow> (Inr (), t\<lparr>mIntransaction := False\<rparr>, l')
        | (Inl ex, l') \<Rightarrow> (Inl (SqliteTransactionException (what ex) 0), t, l')
      else (Inr (), t, l))"

definition commit ::
  "engine \<Rightarrow> SqliteTransaction \<Rightarrow> log \<Rightarrow> (exception + unit) \<times> SqliteTransaction \<times> log" where
  "commit e t l = exec e ''COMMIT'' t l"

definition rollback ::
  "engine \<Rightarrow> SqliteTransaction \<Rightarrow> log \<Rightarrow> (exception + unit) \<times> SqliteTransaction \<times> log" where
  "rollback e t l = exec e ''ROLLBACK'' t l"

definition inTransaction :: "SqliteTransaction \<Rightarrow> bool" where
  "inTransaction t = mIntransaction t"

text \<open>The destructor: \<open>catch (...)\<close> turns any exception of \<open>execute\<close> into a normal return.\<close>
definition destroy_SqliteTransaction ::
  "engine \<Rightarrow> SqliteTransaction \<Rightarrow> log \<Rightarrow> (exception + unit) \<times> SqliteTransaction \<times> log" where
  "destroy_SqliteTransaction e t l =
     (if mIntransaction t then
        case execute e (mSqliteDb t) ''ROLLBACK'' l of
          (Inr _, l') \<Rightarrow> (Inr (), t\<lparr>mIntransaction := False\<rparr>, l')
        | (Inl ex, l') \<Rightarrow> (Inr (), t, l')
      else (Inr (), t, l))"

section \<open>Call sequences and callers\<close>

text \<open>
  The definitions of this section are not part of the wrapper.  They describe the call
  sequences the properties below speak about, and callers that use a transaction.
\<close>

text \<open>The engine call by which a value is bound to a slot of a statement.\<close>
fun value_call :: "sqlite3_stmt \<Rightarrow> int \<Rightarrow> SqliteValue \<Rightarrow> sqlite3_call" where
  "value_call s i monostate = sqlite3_bind_null s i"
| "value_call s i (Int64 v) = sqlite3_bind_int64 s i v"
| "value_call s i (Double v) = sqlite3_bind_double s i v"
| "value_call s i (Text v) = sqlite3_bind_text s i v"
| "value_call s i (Blob v) = sqlite3_bind_blob s i v"

text \<open>The bind calls for the values of a row, the first value going to slot \<open>idx\<close>.\<close>
definition bind_calls :: "sqlite3_stmt \<Rightarrow> nat \<Rightarrow> SqliteValue list \<Rightarrow> log" where
  "bind_calls s idx row = map (\<lambda>(i, v). value_call s (int i) v) (enumerate idx row)"


text \<open>The call that releases the statement at the end: none for the null handle.\<close>
definition release_calls :: "engine \<Rightarrow> sqlite3_stmt \<Rightarrow> log" where
  "release_calls e s = (if null_stmt e s then [] else [sqlite3_finalize s])"




fun is_step :: "sqlite3_call \<Rightarrow> bool" where
  "is_step (sqlite3_step s) = True"
| "is_step c = False"

fun is_prepare :: "sqlite3_call \<Rightarrow> bool" where
  "is_prepare (sqlite3_prepare_v2 s) = True"
| "is_prepare c = False"










section \<open>Example engines\<close>

text \<open>Concrete engines and inputs on which the theorems below are instantiated.\<close>

definition demo_sql :: string where
  "demo_sql = ''INSERT INTO t VALUES (?, ?)''"

text \<open>
  An engine that accepts everything; its statements have two parameters, and only the
  empty text gives the null handle (so for every example engine).
\<close>
definition ok_engine :: engine where
  "ok_engine =
     \<lparr>result_code = (\<lambda>l c. case c of sqlite3_step s \<Rightarrow> SQLITE_DONE | _ \<Rightarrow> SQLITE_OK),
      exec_errMsg = (\<lambda>l. None),
      sqlite3_errmsg = (\<lambda>l. ''not an error''),
      sqlite3_bind_parameter_count = (\<lambda>s. 2),
      null_stmt = (\<lambda>s. s = [])\<rparr>"

text \<open>An engine that answers every call with \<open>SQLITE_ERROR\<close>.\<close>
definition failing_engine :: engine where
  "failing_engine =
     \<lparr>result_code = (\<lambda>l c. 1),
      exec_errMsg = (\<lambda>l. Some ''database is locked''),
      sqlite3_errmsg = (\<lambda>l. ''database is locked''),
      sqlite3_bind_parameter_count = (\<lambda>s. 2),
      null_stmt = (\<lambda>s. s = [])\<rparr>"



text \<open>An engine that accepts everything but answers every reset with \<open>SQLITE_CONSTRAINT\<close>.\<close>
definition reset_failing_engine :: engine where
  "reset_failing_engine =
     \<lparr>result_code = (\<lambda>l c. case c of sqlite3_step s \<Rightarrow> SQLITE_DONE
                                    | sqlite3_reset s \<Rightarrow> 19
                                    | _ \<Rightarrow> SQLITE_OK),
      exec_errMsg = (\<lambda>l. None),
      sqlite3_errmsg = (\<lambda>l. ''constraint failed''),
      sqlite3_bind_parameter_count = (\<lambda>s. 2),
      null_stmt = (\<lambda>s. s = [])\<rparr>"

text \<open>An open connection, an active transaction on it, and two rows of two values.\<close>
definition demo_db :: SqliteDb where
  "demo_db = \<lparr>mConnection = Some 1\<rparr>"

definition demo_transaction :: SqliteTransaction where
  "demo_transaction = \<lparr>mSqliteDb = demo_db, mIntransaction = True\<rparr>"



section \<open>Binding\<close>

text \<open>
  Claim C7.  For every statement and every index below 1 or above the parameter count,
  each binding operation (the six \<open>bind\<close> overloads and \<open>bindNull\<close>) throws a
  statement exception and leaves the call log as it was: the engine's bind function is
  not reached.
\<close>
theorem bind_index_out_of_range:
  assumes "index < 1 \<or> index > getParameterCount e st"
  shows "\<exists>ex. category_of ex = Statement \<and>
     bind_int e st index v32 l = (Inl ex, l) \<and>
     bind_int64 e st index v64 l = (Inl ex, l) \<and>
     bind_double e st index d l = (Inl ex, l) \<and>
     bind_string e st index s l = (Inl ex, l) \<and>
     bind_cstr e st index s l = (Inl ex, l) \<and>
     bind_blob e st index b l = (Inl ex, l) \<and>
     bindNull e st index l = (Inl ex, l)"
proof (cases "checkParameterIndex e st index")
  case None
  with assms show ?thesis
    by (simp add: checkParameterIndex_def Let_def split: if_splits)
next
  case (Some ex)
  then have "category_of ex = Statement"
    by (auto simp: checkParameterIndex_def Let_def split: if_splits)
  with Some show ?thesis
    by (simp add: bind_int_def bind_int64_def bind_double_def bind_string_def bind_cstr_def
        bind_blob_def bindNull_def)
qed

theorem bind_index_out_of_range_witness:
  "(3 < (1::int) \<or> 3 > getParameterCount ok_engine \<lparr>mStatement = demo_sql\<rparr>) \<and>
   (\<exists>ex. category_of ex = Statement \<and>
     bind_int ok_engine \<lparr>mStatement = demo_sql\<rparr> 3 7 [] = (Inl ex, []) \<and>
     bind_int64 ok_engine \<lparr>mStatement = demo_sql\<rparr> 3 7 [] = (Inl ex, []) \<and>
     bind_double ok_engine \<lparr>mStatement = demo_sql\<rparr> 3 0 [] = (Inl ex, []) \<and>
     bind_string ok_engine \<lparr>mStatement = demo_sql\<rparr> 3 ''x'' [] = (Inl ex, []) \<and>
     bind_cstr ok_engine \<lparr>mStatement = demo_sql\<rparr> 3 ''x'' [] = (Inl ex, []) \<and>
     bind_blob ok_engine \<lparr>mStatement = demo_sql\<rparr> 3 [1] [] = (Inl ex, []) \<and>
     bindNull ok_engine \<lparr>mStatement = demo_sql\<rparr> 3 [] = (Inl ex, []))"
proof -
  have h: "3 < (1::int) \<or> 3 > getParameterCount ok_engine \<lparr>mStatement = demo_sql\<rparr>"
    by (simp add: getParameterCount_def ok_engine_def)
  show ?thesis
    using h bind_index_out_of_range [OF h, of 7 "[]" 7 0 "''x''" "[1]"] by simp
qed

text \<open>
  Claim C8.  The claim asks that a failed engine bind call is reported with a message
  naming the index and the kind being bound.  The blob overload does not: when
  \<open>sqlite3_bind_blob\<close> reports \<open>SQLITE_ERROR\<close> for index 1, the message names the index
  but says \<open>text\<close>, the word of the two text overloads.
\<close>
theorem bind_blob_failure_names_text:
  "bind_blob failing_engine \<lparr>mStatement = demo_sql\<rparr> 1 [1, 2] [] =
     (Inl (SqliteStatementException ''Failed to bind text at index 1'' 0),
      [sqlite3_bind_blob demo_sql 1 [1, 2]])"
  by (simp add: bind_blob_def checkParameterIndex_def getParameterCount_def failing_engine_def
      issue_def SQLITE_OK_def to_string_def digits.simps)

section \<open>The cache size\<close>

lemma not_less_MIN_CACHE_KB: "\<not> sizeKb < MIN_CACHE_KB"
  by (simp add: MIN_CACHE_KB_def)

lemma greater_MAX_CACHE_KB: "(sizeKb > MAX_CACHE_KB) = (unat sizeKb > 2000000)"
  by (simp add: MAX_CACHE_KB_def word_less_nat_alt)

lemma execute_not_invalid_argument: "fst (execute e db sql l) \<noteq> Inl (invalid_argument msg)"
  by (simp add: execute_def checkConnection_def issue_def Let_def split: option.splits)

text \<open>
  Claim C10.  The size is unsigned, so the comparison against the minimum 0 is never
  true and the ``too small'' branch is dead: \<open>setCacheSize\<close> throws an invalid-argument
  exception exactly when the size exceeds 2000000, and the exception it throws is always
  the ``too large'' one.
\<close>
theorem setCacheSize_too_small_unreachable:
  "\<not> sizeKb < MIN_CACHE_KB \<and>
   ((\<exists>msg. fst (setCacheSize e db sizeKb l) = Inl (invalid_argument msg))
      \<longleftrightarrow> unat sizeKb > 2000000) \<and>
   (\<forall>msg. fst (setCacheSize e db sizeKb l) = Inl (invalid_argument msg)
      \<longrightarrow> take 21 msg = ''Cache size too large:'')"
  by (simp add: setCacheSize_def not_less_MIN_CACHE_KB greater_MAX_CACHE_KB
      execute_not_invalid_argument)

theorem setCacheSize_too_small_unreachable_witness:
  "fst (setCacheSize ok_engine \<lparr>mConnection = Some 1\<rparr> 2000001 [])
     = Inl (invalid_argument ''Cache size too large: 2000001 KB (maximum: 2000000 KB)'') \<and>
   take 21 ''Cache size too large: 2000001 KB (maximum: 2000000 KB)'' = ''Cache size too large:''"
proof -
  have h: "fst (setCacheSize ok_engine \<lparr>mConnection = Some 1\<rparr> 2000001 [])
     = Inl (invalid_argument ''Cache size too large: 2000001 KB (maximum: 2000000 KB)'')"
    by (simp add: setCacheSize_def MIN_CACHE_KB_def MAX_CACHE_KB_def digits.simps)
  with setCacheSize_too_small_unreachable [of 2000001 ok_engine "\<lparr>mConnection = Some 1\<rparr>" "[]"]
  show ?thesis by blast
qed

lemma to_string_cache_size:
  assumes "unat (sizeKb :: size_t) \<le> 2000000"
  shows "to_string (sint sizeKb) = digits (unat sizeKb)"
proof -
  from assms have "int (unat sizeKb) \<le> 2000000" by linarith
  then have u: "uint sizeKb \<le> 2000000" by simp
  have "signed_take_bit 63 (uint sizeKb) = uint sizeKb"
  proof (rule signed_take_bit_int_eq_self)
    show "- (2 ^ 63) \<le> uint sizeKb" by (rule order_trans [of _ 0]) simp_all
    show "uint sizeKb < 2 ^ 63" using u by simp
  qed
  then have "sint sizeKb = uint sizeKb" by (simp add: sint_uint)
  then show ?thesis by (simp add: to_string_def)
qed

lemma execute_open:
  "isOpen db \<Longrightarrow> snd (execute e db sql l) = l @ [sqlite3_exec sql]"
  by (simp add: execute_def isOpen_def checkConnection_def issue_def Let_def)

text \<open>
  Claim C9.  A size above 2000000 (there is none below 0, the type being unsigned) makes
  \<open>setCacheSize\<close> throw an invalid-argument exception with the call log untouched.  A
  size within the range makes it issue exactly one command on an open connection, the
  \<open>PRAGMA cache_size\<close> command carrying the size.
\<close>
theorem setCacheSize_range:
  "(unat sizeKb > 2000000 \<longrightarrow>
      (\<exists>msg. setCacheSize e db sizeKb l = (Inl (invalid_argument msg), l))) \<and>
   (unat sizeKb \<le> 2000000 \<and> isOpen db \<longrightarrow>
      snd (setCacheSize e db sizeKb l)
        = l @ [sqlite3_exec (''PRAGMA cache_size = '' @ digits (unat sizeKb))])"
  by (simp add: setCacheSize_def not_less_MIN_CACHE_KB greater_MAX_CACHE_KB
      execute_open to_string_cache_size)

theorem setCacheSize_range_witness:
  "(unat (2000001 :: size_t) > 2000000 \<and>
      setCacheSize ok_engine \<lparr>mConnection = Some 1\<rparr> 2000001 []
        = (Inl (invalid_argument ''Cache size too large: 2000001 KB (maximum: 2000000 KB)''), [])) \<and>
   (unat (2000 :: size_t) \<le> 2000000 \<and> isOpen \<lparr>mConnection = Some 1\<rparr> \<and>
      snd (setCacheSize ok_engine \<lparr>mConnection = Some 1\<rparr> 2000 [])
        = [sqlite3_exec ''PRAGMA cache_size = 2000''])"
proof -
  have h1: "unat (2000001 :: size_t) > 2000000" by simp
  have h2: "unat (2000 :: size_t) \<le> 2000000 \<and> isOpen \<lparr>mConnection = Some 1\<rparr>"
    by (simp add: isOpen_def)
  from h1 setCacheSize_range [of 2000001 ok_engine "\<lparr>mConnection = Some 1\<rparr>" "[]"]
  obtain msg where m: "setCacheSize ok_engine \<lparr>mConnection = Some 1\<rparr> 2000001 []
        = (Inl (invalid_argument msg), [])" by blast
  have "msg = ''Cache size too large: 2000001 KB (maximum: 2000000 KB)''"
    using m by (simp add: setCacheSize_def MIN_CACHE_KB_def MAX_CACHE_KB_def digits.simps)
  with m h1 h2 setCacheSize_range [of 2000 ok_engine "\<lparr>mConnection = Some 1\<rparr>" "[]"]
  show ?thesis by (simp add: digits.simps)
qed

section \<open>Transactions\<close>

lemma execute_open_result:
  "isOpen db \<Longrightarrow> execute e db sql l =
     (if result_code e l (sqlite3_exec sql) \<noteq> SQLITE_OK
      then Inl (SqliteDbException (''SQL execution error: '' @
             (case exec_errMsg e (l @ [sqlite3_exec sql]) of
                Some errMsg \<Rightarrow> errMsg | None \<Rightarrow> sqlite3_errmsg e (l @ [sqlite3_exec sql]))) 0)
      else Inr (), l @ [sqlite3_exec sql])"
  by (auto simp: execute_def isOpen_def checkConnection_def issue_def getErrorMessage_def Let_def
      split: option.splits)


















text \<open>
  Claim C4.  The claim asks that a failing \<open>BEGIN\<close> surfaces as a transaction error.
  The constructor does not catch what \<open>execute\<close> throws: on an open connection whose
  engine rejects \<open>BEGIN IMMEDIATE\<close>, the caller receives the \<open>SqliteDbException\<close> of
  \<open>execute\<close>, a connection error.
\<close>
theorem constructor_begin_failure_is_connection_error:
  "new_SqliteTransaction failing_engine demo_db Immediate []
     = (Inl (SqliteDbException ''SQL execution error: database is locked'' 0),
        [sqlite3_exec ''BEGIN IMMEDIATE;'']) \<and>
   category_of (SqliteDbException ''SQL execution error: database is locked'' 0) = Connection"
  by (simp add: new_SqliteTransaction_def execute_open_result isOpen_def demo_db_def
      failing_engine_def SQLITE_OK_def)

text \<open>
  Claim C5.  On an active transaction over an open connection, a \<open>COMMIT\<close> that the
  engine rejects makes \<open>commit\<close> throw a transaction exception carrying the message of
  the exception of \<open>execute\<close>, and the object is unchanged, still active.  A \<open>COMMIT\<close>
  that the engine accepts clears the flag.  The flag is set after \<open>commit\<close> exactly when
  the command was rejected.
\<close>
theorem commit_failure_stays_active:
  assumes "mIntransaction t" and "isOpen (mSqliteDb t)"
  shows "(result_code e l (sqlite3_exec ''COMMIT'') \<noteq> SQLITE_OK \<longrightarrow>
            (\<exists>msg. execute e (mSqliteDb t) ''COMMIT'' l
                      = (Inl (SqliteDbException msg 0), l @ [sqlite3_exec ''COMMIT'']) \<and>
                   commit e t l
                      = (Inl (SqliteTransactionException msg 0), t, l @ [sqlite3_exec ''COMMIT'']))) \<and>
         (result_code e l (sqlite3_exec ''COMMIT'') = SQLITE_OK \<longrightarrow>
            commit e t l = (Inr (), t\<lparr>mIntransaction := False\<rparr>, l @ [sqlite3_exec ''COMMIT''])) \<and>
         (mIntransaction (fst (snd (commit e t l)))
            \<longleftrightarrow> result_code e l (sqlite3_exec ''COMMIT'') \<noteq> SQLITE_OK)"
  using assms by (simp add: commit_def exec_def execute_open_result)

theorem commit_failure_stays_active_witness:
  "mIntransaction demo_transaction \<and> isOpen (mSqliteDb demo_transaction) \<and>
   result_code failing_engine [] (sqlite3_exec ''COMMIT'') \<noteq> SQLITE_OK \<and>
   commit failing_engine demo_transaction []
     = (Inl (SqliteTransactionException ''SQL execution error: database is locked'' 0),
        demo_transaction, [sqlite3_exec ''COMMIT'']) \<and>
   result_code ok_engine [] (sqlite3_exec ''COMMIT'') = SQLITE_OK \<and>
   commit ok_engine demo_transaction []
     = (Inr (), demo_transaction\<lparr>mIntransaction := False\<rparr>, [sqlite3_exec ''COMMIT''])"
proof -
  have h: "mIntransaction demo_transaction" "isOpen (mSqliteDb demo_transaction)"
    by (simp_all add: demo_transaction_def demo_db_def isOpen_def)
  have f: "result_code failing_engine [] (sqlite3_exec ''COMMIT'') \<noteq> SQLITE_OK"
    by (simp add: failing_engine_def SQLITE_OK_def)
  have k: "result_code ok_engine [] (sqlite3_exec ''COMMIT'') = SQLITE_OK"
    by (simp add: ok_engine_def)
  from f commit_failure_stays_active [OF h, of failing_engine "[]"]
  obtain msg where m: "execute failing_engine (mSqliteDb demo_transaction) ''COMMIT'' []
                      = (Inl (SqliteDbException msg 0), [] @ [sqlite3_exec ''COMMIT''])"
     and c: "commit failing_engine demo_transaction []
                      = (Inl (SqliteTransactionException msg 0), demo_transaction, [] @ [sqlite3_exec ''COMMIT''])"
    by blast
  from m have "msg = ''SQL execution error: database is locked''"
    by (simp add: execute_open_result h failing_engine_def SQLITE_OK_def)
  with c h f k commit_failure_stays_active [OF h, of ok_engine "[]"]
  show ?thesis by simp
qed

text \<open>
  Claim C6, as amended.  The destructor never throws.  On an active transaction over an
  open connection it issues one \<open>ROLLBACK\<close>; on a finished one it does nothing.  When
  \<open>execute\<close> throws on that command, an explicit \<open>rollback\<close> passes the failure on as a
  transaction exception while the destructor returns normally.  The destructor is not
  the only place where a failure is dropped: \<open>reset\<close> and \<open>clearBindings\<close> return
  normally whatever result code the engine gives.
\<close>
theorem destructor_swallows_failure:
  "fst (destroy_SqliteTransaction e t l) = Inr () \<and>
   (mIntransaction t \<and> isOpen (mSqliteDb t) \<longrightarrow>
      snd (snd (destroy_SqliteTransaction e t l)) = l @ [sqlite3_exec ''ROLLBACK'']) \<and>
   (\<not> mIntransaction t \<longrightarrow> destroy_SqliteTransaction e t l = (Inr (), t, l)) \<and>
   (mIntransaction t \<longrightarrow>
      (\<forall>ex l'. execute e (mSqliteDb t) ''ROLLBACK'' l = (Inl ex, l') \<longrightarrow>
         rollback e t l = (Inl (SqliteTransactionException (what ex) 0), t, l') \<and>
         destroy_SqliteTransaction e t l = (Inr (), t, l'))) \<and>
   fst (reset e st l) = Inr () \<and> fst (clearBindings e st l) = Inr ()"
  by (auto simp: destroy_SqliteTransaction_def rollback_def exec_def execute_open_result
      reset_def clearBindings_def issue_def split: prod.splits sum.splits)

theorem destructor_swallows_failure_witness:
  "mIntransaction demo_transaction \<and> isOpen (mSqliteDb demo_transaction) \<and>
   execute failing_engine (mSqliteDb demo_transaction) ''ROLLBACK'' []
     = (Inl (SqliteDbException ''SQL execution error: database is locked'' 0),
        [sqlite3_exec ''ROLLBACK'']) \<and>
   rollback failing_engine demo_transaction []
     = (Inl (SqliteTransactionException ''SQL execution error: database is locked'' 0),
        demo_transaction, [sqlite3_exec ''ROLLBACK'']) \<and>
   destroy_SqliteTransaction failing_engine demo_transaction []
     = (Inr (), demo_transaction, [sqlite3_exec ''ROLLBACK'']) \<and>
   \<not> mIntransaction (demo_transaction\<lparr>mIntransaction := False\<rparr>) \<and>
   destroy_SqliteTransaction failing_engine (demo_transaction\<lparr>mIntransaction := False\<rparr>) []
     = (Inr (), demo_transaction\<lparr>mIntransaction := False\<rparr>, [])"
proof -
  have h: "mIntransaction demo_transaction" "isOpen (mSqliteDb demo_transaction)"
    by (simp_all add: demo_transaction_def demo_db_def isOpen_def)
  have x: "execute failing_engine (mSqliteDb demo_transaction) ''ROLLBACK'' []
     = (Inl (SqliteDbException ''SQL execution error: database is locked'' 0),
        [sqlite3_exec ''ROLLBACK''])"
    by (simp add: execute_open_result h failing_engine_def SQLITE_OK_def)
  have n: "\<not> mIntransaction (demo_transaction\<lparr>mIntransaction := False\<rparr>)" by simp
  from h x n
    destructor_swallows_failure [of failing_engine demo_transaction "[]"]
    destructor_swallows_failure [of failing_engine "demo_transaction\<lparr>mIntransaction := False\<rparr>" "[]"]
  show ?thesis by simp
qed

text \<open>
  As first stated, the claim makes the destructor the sole place where a failure is
  suppressed.  \<open>reset\<close> suppresses one as well: the engine answers \<open>sqlite3_reset\<close> with
  \<open>SQLITE_CONSTRAINT\<close> and \<open>reset\<close> returns normally.
\<close>
theorem reset_suppresses_failure:
  "result_code reset_failing_engine [] (sqlite3_reset demo_sql) \<noteq> SQLITE_OK \<and>
   reset reset_failing_engine \<lparr>mStatement = demo_sql\<rparr> [] = (Inr (), [sqlite3_reset demo_sql])"
  by (simp add: reset_def issue_def reset_failing_engine_def SQLITE_OK_def)

section \<open>Batch execution\<close>

lemma bind_calls_simps [simp]:
  "bind_calls s idx [] = []"
  "bind_calls s idx (v # vs) = value_call s (int idx) v # bind_calls s (Suc idx) vs"
  by (simp_all add: bind_calls_def)








lemma and_then_Inl [simp]: "and_then (Inl ex, l) f = (Inl ex, l)"
  by (simp add: and_then_def)

lemma and_then_Inr [simp]: "and_then (Inr a, l) f = f a l"
  by (simp add: and_then_def)

























lemma release_calls_no_step [simp]: "filter is_step (release_calls e s) = []"
  by (simp add: release_calls_def)

lemma release_calls_no_prepare [simp]: "filter is_prepare (release_calls e s) = []"
  by (simp add: release_calls_def)



text \<open>A template that gives the null handle: nothing is finalized.\<close>
lemma empty_template_not_finalized:
  "executeBatch ok_engine demo_db [] [] [] = (Inr (), [sqlite3_prepare_v2 []])"
  by (simp add: executeBatch_def prepare_def checkConnection_def demo_db_def issue_def
      ok_engine_def destroy_statement_def)












end
